theory Spec2Isabelle
  imports Main "HOL-Library.Sublist"
begin

section \<open>Python values used by the retrieval engine and the answer synthesizer\<close>

text \<open>
  Strings are lists of 8-bit characters read as the code points U+0000 to U+00FF; text
  outside that range is outside the model. Python's unbounded integers are \<open>int\<close>,
  lengths and counters that are never negative are \<open>nat\<close>. Similarity scores are
  float32 values in the source; the model keeps them in a type variable \<open>'s\<close>, with a
  linear order where a claim compares them.
  Coroutines are run to completion one at a time: no interleaving at \<open>await\<close>.
\<close>

datatype py_error =
    ValueError string
  | IndexError string
  | OSError string
  | LibraryError string

fun error_message :: "py_error \<Rightarrow> string" where
  "error_message (ValueError m) = m"
| "error_message (IndexError m) = m"
| "error_message (OSError m) = m"
| "error_message (LibraryError m) = m"

text \<open>\<open>xs[i]\<close> on a Python list: a negative index counts from the end, an index out of
  range raises IndexError.\<close>

definition py_index :: "'a list \<Rightarrow> int \<Rightarrow> py_error + 'a" where
  "py_index xs i =
     (if 0 \<le> i \<and> i < int (length xs) then Inr (xs ! nat i)
      else if i < 0 \<and> - int (length xs) \<le> i then Inr (xs ! nat (int (length xs) + i))
      else Inl (IndexError ''list index out of range''))"

text \<open>\<open>str(n)\<close> and the \<open>{n}\<close> of an f-string, for integers.\<close>

definition digit_char :: "nat \<Rightarrow> char" where
  "digit_char n = ''0123456789'' ! n"

function str_nat :: "nat \<Rightarrow> string" where
  "str_nat n = (if n < 10 then [digit_char n] else str_nat (n div 10) @ [digit_char (n mod 10)])"
  by pat_completeness auto
termination
  by (relation "measure id") auto

declare str_nat.simps [simp del]

definition str_int :: "int \<Rightarrow> string" where
  "str_int i = (if i < 0 then CHR ''-'' # str_nat (nat (- i)) else str_nat (nat i))"

text \<open>\<open>sep.join(parts)\<close>.\<close>

fun py_join :: "string \<Rightarrow> string list \<Rightarrow> string" where
  "py_join sep [] = []"
| "py_join sep [p] = p"
| "py_join sep (p # q # ps) = p @ sep @ py_join sep (q # ps)"

text \<open>\<open>str.isspace\<close> on one character: the twelve white-space code points below U+0100.\<close>

definition py_isspace :: "char \<Rightarrow> bool" where
  "py_isspace c =
     (c \<in> set [CHR 0x09, CHR 0x0A, CHR 0x0B, CHR 0x0C, CHR 0x0D, CHR 0x1C, CHR 0x1D,
               CHR 0x1E, CHR 0x1F, CHR 0x20, CHR 0x85, CHR 0xA0])"

text \<open>\<open>s.strip()\<close>: white space removed at both ends.\<close>

definition py_strip :: "string \<Rightarrow> string" where
  "py_strip s = rev (dropWhile py_isspace (rev (dropWhile py_isspace s)))"

text \<open>\<open>s.split()\<close>: the maximal runs of characters that are not white space. The loop
  keeps the word being read in \<open>cur\<close>.\<close>

fun split_ws_loop :: "string \<Rightarrow> string \<Rightarrow> string list" where
  "split_ws_loop [] cur = (if cur = [] then [] else [cur])"
| "split_ws_loop (c # cs) cur =
     (if py_isspace c then (if cur = [] then split_ws_loop cs [] else cur # split_ws_loop cs [])
      else split_ws_loop cs (cur @ [c]))"

definition py_split_ws :: "string \<Rightarrow> string list" where
  "py_split_ws s = split_ws_loop s []"

text \<open>\<open>s.split(c)\<close> for a one-character separator: every piece is kept, empty ones too.\<close>

fun split_on_loop :: "char \<Rightarrow> string \<Rightarrow> string \<Rightarrow> string list" where
  "split_on_loop sep [] cur = [cur]"
| "split_on_loop sep (c # cs) cur =
     (if c = sep then cur # split_on_loop sep cs [] else split_on_loop sep cs (cur @ [c]))"

definition py_split_on :: "char \<Rightarrow> string \<Rightarrow> string list" where
  "py_split_on sep s = split_on_loop sep s []"

text \<open>\<open>s.lower()\<close>: the cased code points below U+0100 are A to Z and the Latin-1 capitals
  U+00C0 to U+00DE without the multiplication sign U+00D7; each maps 32 places up.\<close>

definition upper_chars :: string where
  "upper_chars = ''ABCDEFGHIJKLMNOPQRSTUVWXYZ'' @
     [CHR 0xC0, CHR 0xC1, CHR 0xC2, CHR 0xC3, CHR 0xC4, CHR 0xC5, CHR 0xC6, CHR 0xC7,
      CHR 0xC8, CHR 0xC9, CHR 0xCA, CHR 0xCB, CHR 0xCC, CHR 0xCD, CHR 0xCE, CHR 0xCF,
      CHR 0xD0, CHR 0xD1, CHR 0xD2, CHR 0xD3, CHR 0xD4, CHR 0xD5, CHR 0xD6,
      CHR 0xD8, CHR 0xD9, CHR 0xDA, CHR 0xDB, CHR 0xDC, CHR 0xDD, CHR 0xDE]"

definition lower_chars :: string where
  "lower_chars = ''abcdefghijklmnopqrstuvwxyz'' @
     [CHR 0xE0, CHR 0xE1, CHR 0xE2, CHR 0xE3, CHR 0xE4, CHR 0xE5, CHR 0xE6, CHR 0xE7,
      CHR 0xE8, CHR 0xE9, CHR 0xEA, CHR 0xEB, CHR 0xEC, CHR 0xED, CHR 0xEE, CHR 0xEF,
      CHR 0xF0, CHR 0xF1, CHR 0xF2, CHR 0xF3, CHR 0xF4, CHR 0xF5, CHR 0xF6,
      CHR 0xF8, CHR 0xF9, CHR 0xFA, CHR 0xFB, CHR 0xFC, CHR 0xFD, CHR 0xFE]"

definition lower_char :: "char \<Rightarrow> char" where
  "lower_char c = (case map_of (zip upper_chars lower_chars) c of Some l \<Rightarrow> l | None \<Rightarrow> c)"

definition py_lower :: "string \<Rightarrow> string" where
  "py_lower s = map lower_char s"


text \<open>\<open>d.get(key, default)\<close> on a key that may be absent.\<close>

definition get_or :: "'a option \<Rightarrow> 'a \<Rightarrow> 'a" where
  "get_or field dflt = (case field of None \<Rightarrow> dflt | Some v \<Rightarrow> v)"


section \<open>The vector store (vector\_store.py)\<close>

text \<open>
  The metadata dictionary of a chunk. The upload path fills the four keys below, with
  strings and an integer chunk id as in the data model, and the code reads them with
  \<open>.get(key, default)\<close>, so each key may be absent.
\<close>

record metadata =
  doc_id :: "string option"
  chunk_id :: "int option"
  source :: "string option"
  file_path :: "string option"

text \<open>
  The flat inner-product index of the faiss library, as far as the store uses it: a fixed
  dimension and the stored rows in insertion order. \<open>ntotal\<close> is the number of rows;
  \<open>add\<close> refuses rows of another dimension and appends the others.
\<close>

record 's flat_index =
  ix_d :: nat
  ix_xb :: "'s list list"

definition IndexFlatIP :: "nat \<Rightarrow> 's flat_index" where
  "IndexFlatIP dim = \<lparr>ix_d = dim, ix_xb = []\<rparr>"

definition ntotal :: "'s flat_index \<Rightarrow> nat" where
  "ntotal ix = length (ix_xb ix)"

definition index_add :: "'s flat_index \<Rightarrow> 's list list \<Rightarrow> py_error + 's flat_index" where
  "index_add ix rows =
     (if list_all (\<lambda>r. length r = ix_d ix) rows then Inr (ix\<lparr>ix_xb := ix_xb ix @ rows\<rparr>)
      else Inl (LibraryError ''assert d == self.d''))"

text \<open>
  What the store calls and does not implement: the sentence encoder, the row-wise
  \<open>faiss.normalize_L2\<close> and the scan \<open>index.search(x, k)\<close>, which answers with one row
  of scores and one row of offsets per query row. Each may raise.
\<close>

record 's externals =
  encode :: "string list \<Rightarrow> py_error + 's list list"
  normalize_L2 :: "'s list \<Rightarrow> 's list"
  search :: "'s flat_index \<Rightarrow> 's list list \<Rightarrow> int \<Rightarrow> py_error + ('s list list \<times> int list list)"

text \<open>
  The two persisted artifacts. A path holds nothing, or something that cannot be read
  back (the read raises with the given message), or a value. The side table is the
  pickled dictionary; \<open>data.get\<close> reads each key with a default.
\<close>

datatype 'a artifact = Absent | Unreadable string | Stored 'a

record side_table =
  st_metadata :: "metadata list option"
  st_texts :: "string list option"
  st_model_name :: "string option"

record 's disk =
  index_file :: "'s flat_index artifact"
  metadata_file :: "side_table artifact"

datatype log_level = INFO | WARNING | ERROR

type_synonym log_record = "log_level \<times> string"

text \<open>The store: the attributes of the object, the two files at its paths and the log
  records written so far.\<close>

record 's vector_store =
  model_name :: string
  dimension :: nat
  index :: "'s flat_index"
  metadata :: "metadata list"
  texts :: "string list"
  files :: "'s disk"
  logged :: "log_record list"

text \<open>What the file system does at one call: a write succeeds or raises, leaving some
  artifact at the path; an unlink succeeds or raises.\<close>

datatype 'a write_outcome = Written | WriteRaises string "'a artifact"

datatype unlink_outcome = Unlinked | UnlinkRaises string

record 's io =
  write_index :: "'s flat_index write_outcome"
  write_metadata :: "side_table write_outcome"
  unlink_index :: unlink_outcome
  unlink_metadata :: unlink_outcome

definition log_to :: "log_level \<Rightarrow> string \<Rightarrow> 's vector_store \<Rightarrow> 's vector_store" where
  "log_to lvl msg st = st\<lparr>logged := logged st @ [(lvl, msg)]\<rparr>"

definition save_index :: "'s io \<Rightarrow> 's vector_store \<Rightarrow> 's vector_store" where
  "save_index env st =
     (case write_index env of
        WriteRaises msg left \<Rightarrow>
          log_to ERROR (''Error saving index: '' @ msg)
            (st\<lparr>files := (files st)\<lparr>index_file := left\<rparr>\<rparr>)
      | Written \<Rightarrow>
          (let st1 = st\<lparr>files := (files st)\<lparr>index_file := Stored (index st)\<rparr>\<rparr>
           in case write_metadata env of
                WriteRaises msg left \<Rightarrow>
                  log_to ERROR (''Error saving index: '' @ msg)
                    (st1\<lparr>files := (files st1)\<lparr>metadata_file := left\<rparr>\<rparr>)
              | Written \<Rightarrow>
                  log_to INFO (''Saved vector index with '' @ str_nat (ntotal (index st1)) @ '' vectors'')
                    (st1\<lparr>files := (files st1)\<lparr>metadata_file :=
                       Stored \<lparr>st_metadata = Some (metadata st1), st_texts = Some (texts st1),
                               st_model_name = Some (model_name st1)\<rparr>\<rparr>\<rparr>)))"

definition add_documents ::
  "'s externals \<Rightarrow> 's io \<Rightarrow> 's vector_store \<Rightarrow> string list \<Rightarrow> metadata list
     \<Rightarrow> (py_error + unit) \<times> 's vector_store" where
  "add_documents ext env st txts metadatas =
     (if length txts \<noteq> length metadatas
      then (Inl (ValueError ''Number of texts and metadatas must match''), st)
      else if txts = [] then (Inr (), st)
      else
        (let st1 = log_to INFO (''Adding '' @ str_nat (length txts) @ '' documents to vector store'') st
         in case encode ext txts of
              Inl e \<Rightarrow> (Inl e, st1)
            | Inr embeddings \<Rightarrow>
                (case index_add (index st1) (map (normalize_L2 ext) embeddings) of
                   Inl e \<Rightarrow> (Inl e, st1)
                 | Inr ix \<Rightarrow>
                     (let st2 = st1\<lparr>index := ix, texts := texts st1 @ txts,
                                    metadata := metadata st1 @ metadatas\<rparr>;
                          st3 = save_index env st2
                      in (Inr (), log_to INFO (''Successfully added '' @ str_nat (length txts)
                              @ '' documents. Total vectors: '' @ str_nat (ntotal (index st3))) st3)))))"

text \<open>The loop that formats the hits of a scan: \<open>results\<close> is the list built so far.\<close>

fun format_results ::
  "string list \<Rightarrow> metadata list \<Rightarrow> ('s \<times> int) list \<Rightarrow> (string \<times> metadata \<times> 's) list
     \<Rightarrow> py_error + (string \<times> metadata \<times> 's) list" where
  "format_results txts metas [] results = Inr results"
| "format_results txts metas ((score, idx) # rest) results =
     (if idx < int (length txts) \<and> idx \<noteq> - 1 then
        (case py_index txts idx of
           Inl e \<Rightarrow> Inl e
         | Inr t \<Rightarrow>
             (case py_index metas idx of
                Inl e \<Rightarrow> Inl e
              | Inr m \<Rightarrow> format_results txts metas rest (results @ [(t, m, score)])))
      else format_results txts metas rest results)"

text \<open>\<open>similarity\_search\<close>, in two parts: what the scan hands to the loop (the query is
  embedded, its first row normalised, \<open>k\<close> clamped, the index scanned and the first row
  of scores zipped with the first row of offsets), then the guard on the empty store and
  the loop. The conversion \<open>float(score)\<close> keeps the value and its order and is the
  identity here.\<close>

definition scan_hits ::
  "'s externals \<Rightarrow> 's vector_store \<Rightarrow> string \<Rightarrow> int \<Rightarrow> py_error + ('s \<times> int) list" where
  "scan_hits ext st query k =
     (case encode ext [query] of
        Inl e \<Rightarrow> Inl e
      | Inr query_embeddings \<Rightarrow>
          (let query_embedding = map (normalize_L2 ext) (take 1 query_embeddings);
               k' = min k (int (ntotal (index st)))
           in case search ext (index st) query_embedding k' of
                Inl e \<Rightarrow> Inl e
              | Inr (scores, indices) \<Rightarrow>
                  (case py_index scores 0 of
                     Inl e \<Rightarrow> Inl e
                   | Inr scores0 \<Rightarrow>
                       (case py_index indices 0 of
                          Inl e \<Rightarrow> Inl e
                        | Inr indices0 \<Rightarrow> Inr (zip scores0 indices0)))))"

definition similarity_search ::
  "'s externals \<Rightarrow> 's vector_store \<Rightarrow> string \<Rightarrow> int \<Rightarrow> py_error + (string \<times> metadata \<times> 's) list" where
  "similarity_search ext st query k =
     (if ntotal (index st) = 0 then Inr []
      else
        (case scan_hits ext st query k of
           Inl e \<Rightarrow> Inl e
         | Inr hits \<Rightarrow> format_results (texts st) (metadata st) hits []))"

text \<open>\<open>\_load\_index\<close>. The body of the \<open>try\<close> answers with the store as it is when the
  body ends or raises: the index read at line 143 is already assigned when the side
  table fails to load. A file that does not unpickle to a dictionary counts as
  unreadable: its \<open>data.get\<close> raises inside the same \<open>try\<close>, before metadata and texts
  are assigned. Interrupts and exit requests, which are not of class \<open>Exception\<close>, are
  outside the model.\<close>

definition load_try :: "'s vector_store \<Rightarrow> (py_error + unit) \<times> 's vector_store" where
  "load_try st =
     (if index_file (files st) \<noteq> Absent \<and> metadata_file (files st) \<noteq> Absent then
        (case index_file (files st) of
           Absent \<Rightarrow> (Inl (OSError ''No such file or directory''), st)
         | Unreadable msg \<Rightarrow> (Inl (LibraryError msg), st)
         | Stored ix \<Rightarrow>
             (let st0 = st\<lparr>index := ix\<rparr>
              in case metadata_file (files st0) of
                   Absent \<Rightarrow> (Inl (OSError ''No such file or directory''), st0)
                 | Unreadable msg \<Rightarrow> (Inl (LibraryError msg), st0)
                 | Stored data \<Rightarrow>
                     (let st1 = st0\<lparr>metadata := get_or (st_metadata data) [],
                                     texts := get_or (st_texts data) []\<rparr>;
                          saved_model = get_or (st_model_name data) (model_name st1);
                          st2 = (if saved_model \<noteq> model_name st1
                                 then log_to WARNING (''Model mismatch: saved='' @ saved_model
                                        @ '', current='' @ model_name st1) st1
                                 else st1)
                      in (Inr (), log_to INFO (''Loaded vector index with ''
                                     @ str_nat (ntotal (index st2)) @ '' vectors'') st2))))
      else (Inr (), log_to INFO ''No existing index found, starting fresh'' st))"

text \<open>The handler (lines 159 to 164), on the store the body left: two log records, then
  a fresh index and empty metadata and texts.\<close>

definition load_except :: "py_error \<Rightarrow> 's vector_store \<Rightarrow> 's vector_store" where
  "load_except e st =
     (log_to INFO ''Starting with fresh index''
        (log_to ERROR (''Error loading index: '' @ error_message e) st))
       \<lparr>index := IndexFlatIP (dimension st), metadata := [], texts := []\<rparr>"

text \<open>\<open>try\<close> and \<open>except Exception\<close> together: the outcome of the body, caught.\<close>

definition catch_load ::
  "(py_error + unit) \<times> 's vector_store \<Rightarrow> (py_error + unit) \<times> 's vector_store" where
  "catch_load outcome =
     (case outcome of
        (Inl e, st') \<Rightarrow> (Inr (), load_except e st')
      | (Inr u, st') \<Rightarrow> (Inr (), st'))"

definition load_index :: "'s vector_store \<Rightarrow> (py_error + unit) \<times> 's vector_store" where
  "load_index st = catch_load (load_try st)"

text \<open>\<open>\_\_init\_\_\<close>. The attributes of lines 21 to 35 with the log record of line 27;
  then the constructor as a whole: the encoder of the model name is constructed first
  (\<open>SentenceTransformer(model\_name)\<close>, line 28, which may raise and then no store
  exists), and the persisted state is loaded last.\<close>

definition new_store :: "string \<Rightarrow> 's disk \<Rightarrow> 's vector_store" where
  "new_store name fs =
     \<lparr>model_name = name, dimension = 384, index = IndexFlatIP 384, metadata = [],
      texts = [], files = fs, logged = [(INFO, ''Loading embedding model: '' @ name)]\<rparr>"

definition VectorStore_init ::
  "(string \<Rightarrow> py_error + unit) \<Rightarrow> string \<Rightarrow> 's disk \<Rightarrow> py_error + 's vector_store" where
  "VectorStore_init sentence_transformer name fs =
     (case sentence_transformer name of
        Inl e \<Rightarrow> Inl e
      | Inr encoder \<Rightarrow>
          (case load_index (new_store name fs) of
             (Inl e, st) \<Rightarrow> Inl e
           | (Inr u, st) \<Rightarrow> Inr st))"

record stats =
  total_vectors :: int
  stats_dimension :: nat
  stats_model_name :: string
  total_texts :: nat
  total_metadata :: nat

definition get_stats :: "'s vector_store \<Rightarrow> stats" where
  "get_stats st =
     \<lparr>total_vectors = int (ntotal (index st)), stats_dimension = dimension st,
      stats_model_name = model_name st, total_texts = length (texts st),
      total_metadata = length (metadata st)\<rparr>"

text \<open>\<open>clear\<close>: the in-memory reset comes first; then each file that exists is unlinked,
  and an unlink that raises ends the call there.\<close>

definition clear :: "'s io \<Rightarrow> 's vector_store \<Rightarrow> (py_error + unit) \<times> 's vector_store" where
  "clear env st =
     (let st1 = st\<lparr>index := IndexFlatIP (dimension st), metadata := [], texts := []\<rparr>
      in case (if index_file (files st1) \<noteq> Absent then unlink_index env else Unlinked) of
           UnlinkRaises msg \<Rightarrow> (Inl (OSError msg), st1)
         | Unlinked \<Rightarrow>
             (let st2 = st1\<lparr>files := (files st1)\<lparr>index_file := Absent\<rparr>\<rparr>
              in case (if metadata_file (files st2) \<noteq> Absent then unlink_metadata env else Unlinked) of
                   UnlinkRaises msg \<Rightarrow> (Inl (OSError msg), st2)
                 | Unlinked \<Rightarrow>
                     (Inr (), log_to INFO ''Cleared vector store''
                                (st2\<lparr>files := (files st2)\<lparr>metadata_file := Absent\<rparr>\<rparr>))))"


section \<open>The answer synthesizer (llm\_service.py)\<close>

text \<open>A retrieved chunk: its text, its metadata and its similarity score.\<close>

type_synonym 's chunk = "string \<times> metadata \<times> 's"

text \<open>
  What the service calls and does not implement: the chat completion of the backend
  (model name, the role/content messages, the output bound; the temperature 0.3 is a
  float and is left out), answering with the content of the first choice or raising;
  the float format \<open>{:.2f}\<close>; and the order in which \<open>list(set(xs))\<close> enumerates a set,
  which Python leaves to the hash values of the strings.
  The log records of the service are not modelled.
\<close>

record 's llm_externals =
  chat_completion :: "string \<Rightarrow> (string \<times> string) list \<Rightarrow> nat \<Rightarrow> py_error + string"
  format_2f :: "'s \<Rightarrow> string"
  list_of_set :: "string list \<Rightarrow> string list"

record llm_service =
  use_openai :: bool

text \<open>\<open>\_\_init\_\_\<close>: the backend is used when the API key of the environment is set and
  not empty.\<close>

definition LLMService_init :: "string option \<Rightarrow> llm_service" where
  "LLMService_init openai_api_key =
     \<lparr>use_openai = (case openai_api_key of None \<Rightarrow> False | Some key \<Rightarrow> key \<noteq> [])\<rparr>"

text \<open>\<open>\_prepare\_context\<close>: the \<open>enumerate\<close> loop over the first five chunks, with the
  counter \<open>i\<close> and the parts built so far.\<close>

fun context_loop :: "nat \<Rightarrow> 's chunk list \<Rightarrow> string list \<Rightarrow> string list" where
  "context_loop i [] context_parts = context_parts"
| "context_loop i ((text, md, score) # rest) context_parts =
     context_loop (i + 1) rest
       (context_parts @
          [''[Source '' @ str_nat (i + 1) @ '': '' @ get_or (source md) ''Unknown''
             @ '', Chunk '' @ str_int (get_or (chunk_id md) 0) @ '']\<newline>'' @ text @ ''\<newline>''])"

definition prepare_context :: "'s chunk list \<Rightarrow> string" where
  "prepare_context context_chunks = py_join ''\<newline>'' (context_loop 0 (take 5 context_chunks) [])"

definition system_prompt :: string where
  "system_prompt =
     ''You are a helpful AI assistant that answers questions based on provided context. \<newline>'' @
     ''\<newline>'' @
     ''        Instructions:\<newline>'' @
     ''        - Answer the question based ONLY on the provided context\<newline>'' @
     ''        - If the context doesn't contain enough information, say so clearly\<newline>'' @
     ''        - Be concise but comprehensive\<newline>'' @
     ''        - Cite specific sources when making claims\<newline>'' @
     ''        - If asked about something not in the context, politely decline and explain what information is available\<newline>'' @
     ''        ''"

definition user_prompt :: "string \<Rightarrow> string \<Rightarrow> string" where
  "user_prompt query context =
     ''Context:\<newline>'' @ context @ ''\<newline>\<newline>Question: '' @ query
       @ ''\<newline>\<newline>Please provide a detailed answer based on the context above.''"

definition generate_openai_response :: "'s llm_externals \<Rightarrow> string \<Rightarrow> string \<Rightarrow> string" where
  "generate_openai_response ext query context =
     (case chat_completion ext ''gpt-3.5-turbo''
             [(''system'', system_prompt), (''user'', user_prompt query context)] 500 of
        Inr content \<Rightarrow> py_strip content
      | Inl e \<Rightarrow> ''Sorry, I encountered an error generating the response: '' @ error_message e)"

text \<open>The sentences of a chunk: the pieces between full stops, stripped, the empty ones
  dropped.\<close>

definition sentences_of :: "string \<Rightarrow> string list" where
  "sentences_of best_chunk =
     map py_strip (filter (\<lambda>s. py_strip s \<noteq> []) (py_split_on (CHR ''.'') best_chunk))"

text \<open>The loop that collects the sentences sharing a word with the query.\<close>

fun relevant_loop :: "string set \<Rightarrow> string list \<Rightarrow> string list \<Rightarrow> string list" where
  "relevant_loop query_words [] relevant_sentences = relevant_sentences"
| "relevant_loop query_words (sentence # rest) relevant_sentences =
     (if query_words \<inter> set (py_split_ws (py_lower sentence)) \<noteq> {}
      then relevant_loop query_words rest (relevant_sentences @ [sentence])
      else relevant_loop query_words rest relevant_sentences)"

definition generate_fallback_response ::
  "'s llm_externals \<Rightarrow> string \<Rightarrow> string \<Rightarrow> 's chunk list \<Rightarrow> string" where
  "generate_fallback_response ext query context context_chunks =
     (let query_lower = py_lower query;
          response =
            (case context_chunks of
               [] \<Rightarrow> ''I couldn't find relevant information to answer your question in the uploaded documents.''
             | (best_chunk, best_metadata, best_score) # _ \<Rightarrow>
                 (let sentences = sentences_of best_chunk;
                      query_words = set (py_split_ws query_lower);
                      relevant_sentences = relevant_loop query_words sentences []
                  in if relevant_sentences \<noteq> [] then
                       ''Based on the available information:\<newline>\<newline>''
                         @ py_join ''. '' (take 3 relevant_sentences)
                         @ ''\<newline>\<newline>Source: '' @ get_or (source best_metadata) ''Unknown document''
                         @ '' (Relevance: '' @ format_2f ext best_score @ '')''
                     else
                       ''I found information related to your query in ''
                         @ get_or (source best_metadata) ''the document'' @ '', ''
                         @ ''but I couldn't extract specific details. Here's what I found:\<newline>\<newline>''
                         @ (if length best_chunk > 300 then take 300 best_chunk @ ''...'' else best_chunk)
                         @ ''\<newline>\<newline>(Relevance: '' @ format_2f ext best_score @ '')''))
      in if length context_chunks > 1 then
           (let sources = map (\<lambda>(_, md, _). get_or (source md) ''Unknown'') (take 3 context_chunks);
                unique_sources = list_of_set ext sources
            in if length unique_sources > 1
               then response @ ''\<newline>\<newline>Information was found across ''
                      @ str_nat (length unique_sources) @ '' sources: '' @ py_join '', '' unique_sources
               else response)
         else response)"

text \<open>\<open>generate\_response\<close>, with the methods of the service it enters, in order.\<close>

datatype svc_call = PrepareContext | OpenAIResponse | FallbackResponse

definition generate_response ::
  "llm_service \<Rightarrow> 's llm_externals \<Rightarrow> string \<Rightarrow> 's chunk list \<Rightarrow> string \<times> svc_call list" where
  "generate_response svc ext query context_chunks =
     (if context_chunks = []
      then (''I couldn't find relevant information to answer your question.'', [])
      else
        (let context = prepare_context context_chunks
         in if use_openai svc
            then (generate_openai_response ext query context, [PrepareContext, OpenAIResponse])
            else (generate_fallback_response ext query context context_chunks,
                  [PrepareContext, FallbackResponse])))"



section \<open>Notions used to state the properties\<close>

text \<open>The three parallel sequences (stored vectors, texts, metadata) have one length.\<close>

definition parallel_lengths :: "'s vector_store \<Rightarrow> bool" where
  "parallel_lengths st =
     (ntotal (index st) = length (texts st) \<and> length (texts st) = length (metadata st))"

text \<open>A hit of the scan is kept by the loop when its offset is neither the sentinel
  \<open>-1\<close> nor at or past the length of the side table of texts.\<close>

definition valid_hit :: "string list \<Rightarrow> 's \<times> int \<Rightarrow> bool" where
  "valid_hit txts hit = (\<not> (snd hit = - 1 \<or> int (length txts) \<le> snd hit))"

text \<open>What the flat index promises for a scan at \<open>k\<close>: every row of scores and every
  row of offsets has \<open>k\<close> entries, and the scores of a row do not increase.\<close>

definition scan_rows_ok :: "int \<Rightarrow> ('s::linorder) list list \<times> int list list \<Rightarrow> bool" where
  "scan_rows_ok k answer =
     (list_all (\<lambda>row. length row = nat k \<and> sorted_wrt (\<ge>) row) (fst answer)
      \<and> list_all (\<lambda>row. length row = nat k) (snd answer))"

text \<open>An artifact that is there and can be read back.\<close>

definition readable :: "'a artifact \<Rightarrow> bool" where
  "readable a = (case a of Stored v \<Rightarrow> True | Absent \<Rightarrow> False | Unreadable msg \<Rightarrow> False)"

text \<open>The context of the specification: a block is the label line (1-based position,
  source or \<open>Unknown\<close>, chunk id or \<open>0\<close>) followed by the raw text; the blocks of at most
  the first five results, in their order, are separated by a blank line.\<close>

definition labelled_block :: "nat \<Rightarrow> 's chunk \<Rightarrow> string" where
  "labelled_block position r =
     ''[Source '' @ str_nat position @ '': '' @ get_or (source (fst (snd r))) ''Unknown''
       @ '', Chunk '' @ str_int (get_or (chunk_id (fst (snd r))) 0) @ '']'' @ ''\<newline>'' @ fst r"

definition assemble :: "'s chunk list \<Rightarrow> string" where
  "assemble results =
     py_join ''\<newline>\<newline>''
       (map (\<lambda>i. labelled_block (i + 1) (results ! i)) [0..<min 5 (length results)])"

text \<open>Lexical overlap: the lower-cased words of the query and of the segment, split at
  white space, have a word in common.\<close>

definition overlaps :: "string \<Rightarrow> string \<Rightarrow> bool" where
  "overlaps query segment =
     (set (py_split_ws (py_lower query)) \<inter> set (py_split_ws (py_lower segment)) \<noteq> {})"

text \<open>The surviving segments, cut at full stops only, as the code cuts: the pieces of
  the chunk between full stops, without the empty and the white-space-only ones,
  stripped, and of these the ones that overlap with the query. A question mark or an
  exclamation mark does not end a segment.\<close>

definition surviving_segments :: "string \<Rightarrow> string \<Rightarrow> string list" where
  "surviving_segments query chunk_text =
     filter (overlaps query)
       (map py_strip (filter (\<lambda>piece. \<not> list_all py_isspace piece) (py_split_on (CHR ''.'') chunk_text)))"

text \<open>The surviving segments as the specification words them: the chunk is cut at
  every sentence-terminating mark, the full stop, the question mark and the exclamation
  mark; the rest is as above.\<close>

definition sentence_end :: "char \<Rightarrow> bool" where
  "sentence_end c = (c = CHR ''.'' \<or> c = CHR ''?'' \<or> c = CHR ''!'')"

fun cut_loop :: "string \<Rightarrow> string \<Rightarrow> string list" where
  "cut_loop [] cur = [cur]"
| "cut_loop (c # cs) cur =
     (if sentence_end c then cur # cut_loop cs [] else cut_loop cs (cur @ [c]))"

definition punctuation_segments :: "string \<Rightarrow> string \<Rightarrow> string list" where
  "punctuation_segments query chunk_text =
     filter (overlaps query)
       (map py_strip (filter (\<lambda>piece. \<not> list_all py_isspace piece) (cut_loop chunk_text [])))"

text \<open>The source values of the first three results, \<open>Unknown\<close> for a result without
  one, and the note on the distinct ones.\<close>

definition top_sources :: "'s chunk list \<Rightarrow> string list" where
  "top_sources results = map (\<lambda>r. get_or (source (fst (snd r))) ''Unknown'') (take 3 results)"

definition sources_note :: "string list \<Rightarrow> string" where
  "sources_note unique_sources =
     ''\<newline>\<newline>Information was found across '' @ str_nat (length unique_sources)
       @ '' sources: '' @ py_join '', '' unique_sources"


section \<open>Example stores and environments\<close>

text \<open>An encoder that answers with one 384-dimensional integer row per text, a scan that
  answers with two hits of which the second is the sentinel, and a file system on which
  every write and unlink succeeds. The empty store is what the constructor returns over
  no files when the encoder loads.\<close>

definition example_meta :: "string \<Rightarrow> int \<Rightarrow> metadata" where
  "example_meta src cid =
     \<lparr>doc_id = Some ''doc'', chunk_id = Some cid, source = Some src, file_path = Some (''uploads/'' @ src)\<rparr>"

definition example_ext :: "int externals" where
  "example_ext =
     \<lparr>encode = (\<lambda>ts. Inr (map (\<lambda>t. int (length t) # replicate 383 0) ts)),
      normalize_L2 = (\<lambda>row. row),
      search = (\<lambda>ix qe k. Inr ([[9, 4]], [[1, - 1]]))\<rparr>"

definition example_io :: "int io" where
  "example_io = \<lparr>write_index = Written, write_metadata = Written,
                  unlink_index = Unlinked, unlink_metadata = Unlinked\<rparr>"

definition empty_disk :: "int disk" where
  "empty_disk = \<lparr>index_file = Absent, metadata_file = Absent\<rparr>"

definition example_empty_store :: "int vector_store" where
  "example_empty_store = snd (load_index (new_store ''all-MiniLM-L6-v2'' empty_disk))"

definition example_store :: "int vector_store" where
  "example_store =
     snd (add_documents example_ext example_io example_empty_store
            [''Cats are small mammals that purr.'', ''Dogs are loyal mammals that bark.'']
            [example_meta ''doc1'' 0, example_meta ''doc2'' 0])"

definition stale_disk :: "int disk" where
  "stale_disk =
     \<lparr>index_file = Stored \<lparr>ix_d = 384, ix_xb = [replicate 384 1]\<rparr>,
      metadata_file = Stored \<lparr>st_metadata = Some [example_meta ''old.txt'' 0],
                               st_texts = Some [''An old chunk.''],
                               st_model_name = Some ''paraphrase-MiniLM-L3-v2''\<rparr>\<rparr>"

definition corrupt_disk :: "int disk" where
  "corrupt_disk =
     \<lparr>index_file = Stored \<lparr>ix_d = 384, ix_xb = [replicate 384 1]\<rparr>,
      metadata_file = Unreadable ''pickle data was truncated''\<rparr>"

text \<open>No backend; scores in hundredths, printed with two decimals; \<open>list(set(xs))\<close>
  as the list without its repetitions. The chunks of scenarios C and D, and a chunk
  whose sentences end in a question mark and an exclamation mark.\<close>

definition example_llm_ext :: "int llm_externals" where
  "example_llm_ext =
     \<lparr>chat_completion = (\<lambda>model messages max_tokens. Inl (LibraryError ''no backend configured'')),
      format_2f = (\<lambda>s. (if s < 0 then ''-'' else []) @ str_nat (nat \<bar>s\<bar> div 100) @ ''.''
                     @ [digit_char (nat \<bar>s\<bar> mod 100 div 10), digit_char (nat \<bar>s\<bar> mod 10)]),
      list_of_set = remdups\<rparr>"

definition scenario_C_chunk :: "int chunk" where
  "scenario_C_chunk =
     (''The sky is blue. Water boils at 100 degrees. Ice melts at 0 degrees.'',
      example_meta ''physics.txt'' 0, 87)"

definition question_chunk :: "int chunk" where
  "question_chunk = (''Is ice cold? Yes! Ice melts'', example_meta ''ice.txt'' 0, 87)"

definition scenario_D_results :: "int chunk list" where
  "scenario_D_results =
     [(''Cats are small mammals that purr.'', example_meta ''doc1'' 0, 91),
      (''Dogs are loyal mammals that bark.'', example_meta ''doc2'' 0, 64)]"


section \<open>Properties of the vector store\<close>

subsection \<open>Auxiliary facts\<close>

lemma save_index_memory:
  "index (save_index env st) = index st" "texts (save_index env st) = texts st"
  "metadata (save_index env st) = metadata st" "dimension (save_index env st) = dimension st"
  "model_name (save_index env st) = model_name st"
  by (simp_all add: save_index_def log_to_def Let_def split: write_outcome.splits)

lemma log_to_memory [simp]:
  "index (log_to l m st) = index st" "texts (log_to l m st) = texts st"
  "metadata (log_to l m st) = metadata st" "dimension (log_to l m st) = dimension st"
  "model_name (log_to l m st) = model_name st" "files (log_to l m st) = files st"
  by (simp_all add: log_to_def)

lemma index_add_ntotal: "index_add ix rows = Inr ix' \<Longrightarrow> ntotal ix' = ntotal ix + length rows"
  by (auto simp: index_add_def ntotal_def split: if_splits)

lemma add_documents_success:
  assumes "add_documents ext env st txts metadatas = (Inr (), st')" and "txts \<noteq> []"
  obtains embeddings ix where "encode ext txts = Inr embeddings"
    and "index_add (index st) (map (normalize_L2 ext) embeddings) = Inr ix"
    and "index st' = ix" and "texts st' = texts st @ txts"
    and "metadata st' = metadata st @ metadatas"
    and "dimension st' = dimension st" and "model_name st' = model_name st"
  using assms
  by (auto simp: add_documents_def Let_def save_index_memory split: if_splits sum.splits)

lemma py_index_0: "py_index xs 0 = Inr x \<Longrightarrow> x \<in> set xs"
  by (cases xs) (auto simp: py_index_def)

lemma py_index_in_range:
  "0 \<le> i \<Longrightarrow> i < int (length xs) \<Longrightarrow> py_index xs i = Inr (xs ! nat i)"
  by (simp add: py_index_def)

lemma format_results_length:
  "format_results txts metas hits acc = Inr rs \<Longrightarrow> length rs \<le> length acc + length hits"
proof (induction hits arbitrary: acc)
  case Nil
  then show ?case by simp
next
  case (Cons h hits)
  obtain score idx where h: "h = (score, idx)" by (cases h)
  from Cons.prems Cons.IH show ?case
    unfolding h by (fastforce split: if_splits sum.splits)
qed

lemma format_results_scores:
  "format_results txts metas hits acc = Inr rs \<Longrightarrow>
     map (snd \<circ> snd) rs = map (snd \<circ> snd) acc @ map fst (filter (valid_hit txts) hits)"
proof (induction hits arbitrary: acc)
  case Nil
  then show ?case by simp
next
  case (Cons h hits)
  obtain score idx where h: "h = (score, idx)" by (cases h)
  show ?case
  proof (cases "valid_hit txts h")
    case True
    with Cons.prems h obtain t m where
      "format_results txts metas hits (acc @ [(t, m, score)]) = Inr rs"
      by (auto simp: valid_hit_def split: sum.splits)
    from Cons.IH [OF this] True h show ?thesis by simp
  next
    case False
    with Cons.prems h have "format_results txts metas hits acc = Inr rs"
      by (auto simp: valid_hit_def)
    from Cons.IH [OF this] False show ?thesis by simp
  qed
qed

lemma format_results_drops_invalid:
  "format_results txts metas hits acc = format_results txts metas (filter (valid_hit txts) hits) acc"
proof (induction hits arbitrary: acc)
  case Nil
  then show ?case by simp
next
  case (Cons h hits)
  obtain score idx where h: "h = (score, idx)" by (cases h)
  show ?case unfolding h
    by (auto simp: valid_hit_def Cons.IH split: sum.splits)
qed

lemma format_results_returns:
  assumes "list_all (\<lambda>hit. - 1 \<le> snd hit) hits" and "length txts \<le> length metas"
  shows "\<exists>rs. format_results txts metas hits acc = Inr rs"
  using assms(1)
proof (induction hits arbitrary: acc)
  case Nil
  then show ?case by simp
next
  case (Cons h hits)
  obtain score idx where h: "h = (score, idx)" by (cases h)
  from Cons.prems h have idx: "- 1 \<le> idx" and rest: "list_all (\<lambda>hit. - 1 \<le> snd hit) hits"
    by simp_all
  show ?case
  proof (cases "idx < int (length txts) \<and> idx \<noteq> - 1")
    case True
    with idx have "0 \<le> idx" "idx < int (length txts)" "idx < int (length metas)"
      using assms(2) by auto
    then have "py_index txts idx = Inr (txts ! nat idx)" "py_index metas idx = Inr (metas ! nat idx)"
      by (simp_all add: py_index_in_range)
    with True Cons.IH [OF rest] show ?thesis unfolding h by simp
  next
    case False
    with Cons.IH [OF rest] show ?thesis unfolding h by auto
  qed
qed

lemma scan_hits_contract:
  fixes ext :: "('s::linorder) externals"
  assumes scan: "\<forall>qe answer. search ext (index st) qe (min k (int (ntotal (index st)))) = Inr answer
                   \<longrightarrow> scan_rows_ok (min k (int (ntotal (index st)))) answer"
    and hits: "scan_hits ext st q k = Inr hits"
  shows "length hits \<le> nat (min k (int (ntotal (index st)))) \<and> sorted_wrt (\<ge>) (map fst hits)"
proof -
  from hits obtain qes scores indices scores0 indices0 where
    s: "search ext (index st) (map (normalize_L2 ext) (take 1 qes)) (min k (int (ntotal (index st))))
          = Inr (scores, indices)"
    and s0: "py_index scores 0 = Inr scores0" and i0: "py_index indices 0 = Inr indices0"
    and z: "hits = zip scores0 indices0"
    by (auto simp: scan_hits_def Let_def split: sum.splits prod.splits)
  from scan s have "scan_rows_ok (min k (int (ntotal (index st)))) (scores, indices)" by blast
  with py_index_0 [OF s0] have row: "length scores0 = nat (min k (int (ntotal (index st))))"
    "sorted_wrt (\<ge>) scores0"
    by (auto simp: scan_rows_ok_def list_all_iff)
  have "map fst hits = take (length indices0) scores0"
    unfolding z by (simp add: map_fst_zip_take min_def take_all)
  with row z show ?thesis by (simp add: sorted_wrt_take)
qed

lemma example_store_eval:
  "fst (add_documents example_ext example_io example_empty_store
            [''Cats are small mammals that purr.'', ''Dogs are loyal mammals that bark.'']
            [example_meta ''doc1'' 0, example_meta ''doc2'' 0]) = Inr ()"
  "texts example_store = [''Cats are small mammals that purr.'', ''Dogs are loyal mammals that bark.'']"
  "metadata example_store = [example_meta ''doc1'' 0, example_meta ''doc2'' 0]"
  "ntotal (index example_store) = 2"
  by (simp_all add: example_store_def add_documents_def example_ext_def example_io_def
        example_empty_store_def new_store_def load_index_def catch_load_def load_try_def empty_disk_def
        log_to_def IndexFlatIP_def ntotal_def index_add_def save_index_def Let_def)


subsection \<open>Search\<close>

text \<open>
  C1, as the code has it. For every store, query and integer \<open>k\<close>, with a scan that
  keeps the promise of the flat index: a search that returns gives at most
  \<open>max(0, min(k, total_vectors))\<close> results, which is \<open>min(k, total_vectors)\<close> for
  \<open>k \<ge> 0\<close>, with scores that do not increase; the hits whose offset is the sentinel
  \<open>-1\<close> or lies at or past the length of the side table contribute nothing, not even an
  error, and when the offsets of the scan are at least \<open>-1\<close> and every text has its
  metadata the search does return; on a store with no vector the search returns the
  empty list.
\<close>

theorem similarity_search_bounded_sorted:
  fixes ext :: "('s::linorder) externals"
  assumes scan: "\<forall>qe answer. search ext (index st) qe (min k (int (ntotal (index st)))) = Inr answer
                   \<longrightarrow> scan_rows_ok (min k (int (ntotal (index st)))) answer"
  shows "(\<forall>rs. similarity_search ext st q k = Inr rs \<longrightarrow>
            int (length rs) \<le> max 0 (min k (total_vectors (get_stats st)))
            \<and> (0 \<le> k \<longrightarrow> int (length rs) \<le> min k (total_vectors (get_stats st)))
            \<and> sorted_wrt (\<ge>) (map (snd \<circ> snd) rs))
       \<and> (\<forall>hits. total_vectors (get_stats st) \<noteq> 0 \<and> scan_hits ext st q k = Inr hits \<longrightarrow>
            similarity_search ext st q k
              = format_results (texts st) (metadata st) (filter (valid_hit (texts st)) hits) []
            \<and> (list_all (\<lambda>hit. - 1 \<le> snd hit) hits \<and> length (texts st) \<le> length (metadata st)
                 \<longrightarrow> (\<exists>rs. similarity_search ext st q k = Inr rs)))
       \<and> (total_vectors (get_stats st) = 0 \<longrightarrow> similarity_search ext st q k = Inr [])"
proof (intro conjI allI impI)
  fix rs assume rs: "similarity_search ext st q k = Inr rs"
  have bound: "length rs \<le> nat (min k (int (ntotal (index st))))"
  proof (cases "ntotal (index st) = 0")
    case True
    with rs show ?thesis by (simp add: similarity_search_def)
  next
    case False
    with rs obtain hits where h: "scan_hits ext st q k = Inr hits"
      and f: "format_results (texts st) (metadata st) hits [] = Inr rs"
      by (auto simp: similarity_search_def split: sum.splits)
    from format_results_length [OF f] scan_hits_contract [OF scan h]
    show ?thesis by simp
  qed
  then show "int (length rs) \<le> max 0 (min k (total_vectors (get_stats st)))"
    by (simp add: get_stats_def)
  show "int (length rs) \<le> min k (total_vectors (get_stats st))" if "0 \<le> k"
    using bound that by (auto simp: get_stats_def min_def split: if_splits)
  show "sorted_wrt (\<ge>) (map (snd \<circ> snd) rs)"
  proof (cases "ntotal (index st) = 0")
    case True
    with rs show ?thesis by (simp add: similarity_search_def)
  next
    case False
    with rs obtain hits where h: "scan_hits ext st q k = Inr hits"
      and f: "format_results (texts st) (metadata st) hits [] = Inr rs"
      by (auto simp: similarity_search_def split: sum.splits)
    from scan_hits_contract [OF scan h] have "sorted_wrt (\<ge>) (map fst hits)" by simp
    then have "sorted_wrt (\<ge>) (map fst (filter (valid_hit (texts st)) hits))"
      by (simp add: sorted_wrt_map sorted_wrt_filter)
    with format_results_scores [OF f] show ?thesis by simp
  qed
next
  fix hits assume a: "total_vectors (get_stats st) \<noteq> 0 \<and> scan_hits ext st q k = Inr hits"
  then have sim: "similarity_search ext st q k = format_results (texts st) (metadata st) hits []"
    by (simp add: similarity_search_def get_stats_def)
  then show "similarity_search ext st q k
      = format_results (texts st) (metadata st) (filter (valid_hit (texts st)) hits) []"
    using format_results_drops_invalid [of "texts st" "metadata st" hits "[]"] by simp
  assume "list_all (\<lambda>hit. - 1 \<le> snd hit) hits \<and> length (texts st) \<le> length (metadata st)"
  then show "\<exists>rs. similarity_search ext st q k = Inr rs"
    unfolding sim by (simp add: format_results_returns)
next
  assume "total_vectors (get_stats st) = 0"
  then show "similarity_search ext st q k = Inr []"
    by (simp add: similarity_search_def get_stats_def)
qed

theorem similarity_search_bounded_sorted_witness:
  "similarity_search example_ext example_store ''Which animal purrs?'' 5
       = Inr [(''Dogs are loyal mammals that bark.'', example_meta ''doc2'' 0, 9)]
   \<and> int (length [(''Dogs are loyal mammals that bark.'', example_meta ''doc2'' 0, 9::int)])
       \<le> min 5 (total_vectors (get_stats example_store))
   \<and> sorted_wrt (\<ge>) (map (snd \<circ> snd) [(''Dogs are loyal mammals that bark.'', example_meta ''doc2'' 0, 9::int)])"
proof -
  have scan: "\<forall>qe answer. search example_ext (index example_store) qe
                  (min 5 (int (ntotal (index example_store)))) = Inr answer
                \<longrightarrow> scan_rows_ok (min 5 (int (ntotal (index example_store)))) answer"
    by (auto simp: example_ext_def scan_rows_ok_def example_store_eval)
  have r: "similarity_search example_ext example_store ''Which animal purrs?'' 5
       = Inr [(''Dogs are loyal mammals that bark.'', example_meta ''doc2'' 0, 9)]"
    by (simp add: similarity_search_def scan_hits_def example_store_eval example_ext_def
          py_index_def Let_def)
  from similarity_search_bounded_sorted [OF scan, of "''Which animal purrs?''"] r
  show ?thesis by simp
qed

text \<open>
  C1 as it is stated, for every integer \<open>k\<close>, fails on the empty store at \<open>k = -1\<close>:
  the guard on the empty store returns the empty list before \<open>k\<close> is read, and its
  length \<open>0\<close> is more than \<open>min(-1, 0)\<close>.
\<close>

theorem similarity_search_negative_k_counterexample:
  "similarity_search example_ext example_empty_store ''anything'' (- 1) = Inr []
   \<and> \<not> int (length ([] :: (string \<times> metadata \<times> int) list))
          \<le> min (- 1) (total_vectors (get_stats example_empty_store))"
  by (simp add: similarity_search_def example_empty_store_def new_store_def load_index_def
        catch_load_def load_try_def empty_disk_def log_to_def IndexFlatIP_def ntotal_def get_stats_def)


subsection \<open>Adding documents\<close>

text \<open>
  C2. For texts and metadatas of one length and an encoder that answers with one row per
  text, after \<open>add\<close> has returned, \<open>total_vectors\<close> has grown by exactly the number of
  texts, and if the three parallel sequences had one length before, they have one length
  after.
\<close>

theorem add_documents_grows_by_len:
  assumes len: "length txts = length metadatas"
    and ok: "add_documents ext env st txts metadatas = (Inr (), st')"
    and rows: "\<forall>embeddings. encode ext txts = Inr embeddings \<longrightarrow> length embeddings = length txts"
  shows "total_vectors (get_stats st') = total_vectors (get_stats st) + int (length txts)
       \<and> (parallel_lengths st \<longrightarrow> parallel_lengths st')"
proof (cases "txts = []")
  case True
  with len ok have "st' = st" by (simp add: add_documents_def)
  with True show ?thesis by simp
next
  case False
  from ok False obtain embeddings ix where e: "encode ext txts = Inr embeddings"
    and a: "index_add (index st) (map (normalize_L2 ext) embeddings) = Inr ix"
    and i: "index st' = ix" and t: "texts st' = texts st @ txts"
    and m: "metadata st' = metadata st @ metadatas"
    by (rule add_documents_success)
  from rows e have n: "length embeddings = length txts" by simp
  from a n have "ntotal ix = ntotal (index st) + length txts"
    by (simp add: index_add_ntotal)
  with i t m len show ?thesis
    by (simp add: get_stats_def parallel_lengths_def)
qed

theorem add_documents_grows_by_len_witness:
  "total_vectors (get_stats example_store) = total_vectors (get_stats example_empty_store) + 2
   \<and> parallel_lengths example_empty_store \<and> parallel_lengths example_store"
proof -
  let ?txts = "[''Cats are small mammals that purr.'', ''Dogs are loyal mammals that bark.'']"
  let ?metas = "[example_meta ''doc1'' 0, example_meta ''doc2'' 0]"
  have len: "length ?txts = length ?metas" by simp
  have ok: "add_documents example_ext example_io example_empty_store ?txts ?metas = (Inr (), example_store)"
    using example_store_eval(1) by (simp add: example_store_def prod_eq_iff)
  have rows: "\<forall>embeddings. encode example_ext ?txts = Inr embeddings \<longrightarrow> length embeddings = length ?txts"
    by (auto simp: example_ext_def)
  have before: "parallel_lengths example_empty_store"
    by (simp add: parallel_lengths_def example_empty_store_def new_store_def load_index_def
          catch_load_def load_try_def empty_disk_def log_to_def IndexFlatIP_def ntotal_def)
  from add_documents_grows_by_len [OF len ok rows] before show ?thesis by simp
qed

text \<open>
  C3. For texts and metadatas of different lengths, \<open>add\<close> raises the ValueError and
  the store, its files and its log are what they were; so are the statistics.
\<close>

theorem add_documents_length_mismatch:
  assumes "length txts \<noteq> length metadatas"
  shows "add_documents ext env st txts metadatas
           = (Inl (ValueError ''Number of texts and metadatas must match''), st)
       \<and> get_stats (snd (add_documents ext env st txts metadatas)) = get_stats st"
  using assms by (simp add: add_documents_def)

theorem add_documents_length_mismatch_witness:
  "length [''An orphan text.''] \<noteq> length ([] :: metadata list)
   \<and> add_documents example_ext example_io example_store [''An orphan text.''] []
       = (Inl (ValueError ''Number of texts and metadatas must match''), example_store)
   \<and> get_stats (snd (add_documents example_ext example_io example_store [''An orphan text.''] []))
       = get_stats example_store"
proof -
  have h: "length [''An orphan text.''] \<noteq> length ([] :: metadata list)" by simp
  from add_documents_length_mismatch [OF h, of example_ext example_io example_store] h
  show ?thesis by simp
qed


subsection \<open>Loading and clearing\<close>

text \<open>
  C9. Loading never raises, on any store. When the encoder of the model name loads, the
  constructor returns the store that loading leaves on the freshly set attributes. That
  store has no vector, no text and no metadata when one of the two files is missing or
  cannot be read. When both files exist and one cannot be read, this is the work of the
  handler, on any store: the index that was read before the side table failed is
  assigned when the body raises and is replaced by a fresh one. Over two readable files
  whose saved model name differs from the configured one, loading succeeds, the stored
  index, texts and metadata are kept, and the log holds one warning (the mismatch)
  between the two information records.
\<close>

theorem load_index_never_raises:
  "fst (load_index st) = Inr ()
   \<and> (sentence_transformer name = Inr () \<longrightarrow>
        VectorStore_init sentence_transformer name fs = Inr (snd (load_index (new_store name fs))))
   \<and> (\<not> readable (index_file fs) \<or> \<not> readable (metadata_file fs) \<longrightarrow>
        total_vectors (get_stats (snd (load_index (new_store name fs)))) = 0
        \<and> texts (snd (load_index (new_store name fs))) = []
        \<and> metadata (snd (load_index (new_store name fs))) = [])
   \<and> (index_file (files st) \<noteq> Absent \<and> metadata_file (files st) \<noteq> Absent
        \<and> (\<not> readable (index_file (files st)) \<or> \<not> readable (metadata_file (files st))) \<longrightarrow>
        total_vectors (get_stats (snd (load_index st))) = 0
        \<and> texts (snd (load_index st)) = []
        \<and> metadata (snd (load_index st)) = [])
   \<and> (index_file (files st) = Stored ix \<and> metadata_file (files st) = Unreadable msg \<longrightarrow>
        load_try st = (Inl (LibraryError msg), st\<lparr>index := ix\<rparr>))
   \<and> (index_file fs = Stored ix \<and> metadata_file fs = Stored data
        \<and> st_model_name data = Some saved \<and> saved \<noteq> name \<longrightarrow>
        index (snd (load_index (new_store name fs))) = ix
        \<and> texts (snd (load_index (new_store name fs))) = get_or (st_texts data) []
        \<and> metadata (snd (load_index (new_store name fs))) = get_or (st_metadata data) []
        \<and> logged (snd (load_index (new_store name fs)))
            = [(INFO, ''Loading embedding model: '' @ name),
               (WARNING, ''Model mismatch: saved='' @ saved @ '', current='' @ name),
               (INFO, ''Loaded vector index with '' @ str_nat (ntotal ix) @ '' vectors'')])"
proof (intro conjI impI)
  show ok: "fst (load_index st) = Inr ()" for st :: "'a vector_store"
    by (simp add: load_index_def catch_load_def split: prod.splits sum.splits)
  show "VectorStore_init sentence_transformer name fs = Inr (snd (load_index (new_store name fs)))"
    if "sentence_transformer name = Inr ()"
    using that ok [of "new_store name fs"]
    by (cases "load_index (new_store name fs)") (auto simp: VectorStore_init_def split: sum.splits)
next
  assume "\<not> readable (index_file fs) \<or> \<not> readable (metadata_file fs)"
  then show "total_vectors (get_stats (snd (load_index (new_store name fs)))) = 0"
    "texts (snd (load_index (new_store name fs))) = []"
    "metadata (snd (load_index (new_store name fs))) = []"
    by (auto simp: new_store_def load_index_def catch_load_def load_except_def load_try_def
          readable_def get_stats_def IndexFlatIP_def ntotal_def log_to_def Let_def
          split: artifact.splits)
next
  assume "index_file (files st) \<noteq> Absent \<and> metadata_file (files st) \<noteq> Absent
        \<and> (\<not> readable (index_file (files st)) \<or> \<not> readable (metadata_file (files st)))"
  then show "total_vectors (get_stats (snd (load_index st))) = 0"
    "texts (snd (load_index st)) = []"
    "metadata (snd (load_index st)) = []"
    by (auto simp: load_index_def catch_load_def load_except_def load_try_def
          readable_def get_stats_def IndexFlatIP_def ntotal_def log_to_def Let_def
          split: artifact.splits)
next
  assume "index_file (files st) = Stored ix \<and> metadata_file (files st) = Unreadable msg"
  then show "load_try st = (Inl (LibraryError msg), st\<lparr>index := ix\<rparr>)"
    by (simp add: load_try_def Let_def)
next
  assume "index_file fs = Stored ix \<and> metadata_file fs = Stored data
        \<and> st_model_name data = Some saved \<and> saved \<noteq> name"
  then show "index (snd (load_index (new_store name fs))) = ix"
    "texts (snd (load_index (new_store name fs))) = get_or (st_texts data) []"
    "metadata (snd (load_index (new_store name fs))) = get_or (st_metadata data) []"
    "logged (snd (load_index (new_store name fs)))
            = [(INFO, ''Loading embedding model: '' @ name),
               (WARNING, ''Model mismatch: saved='' @ saved @ '', current='' @ name),
               (INFO, ''Loaded vector index with '' @ str_nat (ntotal ix) @ '' vectors'')]"
    by (simp_all add: new_store_def load_index_def catch_load_def load_try_def get_or_def
          log_to_def Let_def)
qed

theorem load_index_never_raises_witness:
  "\<not> readable (metadata_file corrupt_disk)
   \<and> VectorStore_init (\<lambda>name. Inr ()) ''all-MiniLM-L6-v2'' corrupt_disk
       = Inr (snd (load_index (new_store ''all-MiniLM-L6-v2'' corrupt_disk)))
   \<and> ntotal (index (snd (load_try (new_store ''all-MiniLM-L6-v2'' corrupt_disk :: int vector_store)))) = 1
   \<and> total_vectors (get_stats (snd (load_index (new_store ''all-MiniLM-L6-v2'' corrupt_disk)))) = 0
   \<and> texts (snd (load_index (new_store ''all-MiniLM-L6-v2'' corrupt_disk))) = []
   \<and> fst (load_index (new_store ''all-MiniLM-L6-v2'' stale_disk)) = Inr ()
   \<and> texts (snd (load_index (new_store ''all-MiniLM-L6-v2'' stale_disk))) = [''An old chunk.'']
   \<and> total_vectors (get_stats (snd (load_index (new_store ''all-MiniLM-L6-v2'' stale_disk)))) = 1"
proof -
  let ?name = "''all-MiniLM-L6-v2''"
  let ?ix = "\<lparr>ix_d = 384, ix_xb = [replicate 384 (1::int)]\<rparr>"
  let ?data = "\<lparr>st_metadata = Some [example_meta ''old.txt'' 0],
                st_texts = Some [''An old chunk.''],
                st_model_name = Some ''paraphrase-MiniLM-L3-v2''\<rparr>"
  have c: "\<not> readable (metadata_file corrupt_disk)"
    by (simp add: corrupt_disk_def readable_def)
  have cf: "index_file (files (new_store ?name corrupt_disk)) = Stored ?ix
        \<and> metadata_file (files (new_store ?name corrupt_disk)) = Unreadable ''pickle data was truncated''"
    by (simp add: corrupt_disk_def new_store_def)
  have e: "(\<lambda>name :: string. Inr () :: py_error + unit) ?name = Inr ()" by simp
  have s: "index_file stale_disk = Stored ?ix \<and> metadata_file stale_disk = Stored ?data
        \<and> st_model_name ?data = Some ''paraphrase-MiniLM-L3-v2''
        \<and> ''paraphrase-MiniLM-L3-v2'' \<noteq> ?name"
    by (simp add: stale_disk_def)
  from load_index_never_raises
         [where st = "new_store ?name corrupt_disk" and name = ?name and fs = corrupt_disk
            and sentence_transformer = "\<lambda>name. Inr ()" and ix = ?ix
            and msg = "''pickle data was truncated''" and data = ?data
            and saved = "''paraphrase-MiniLM-L3-v2''"] c cf e
  have 1: "VectorStore_init (\<lambda>name. Inr ()) ?name corrupt_disk
             = Inr (snd (load_index (new_store ?name corrupt_disk)))
     \<and> load_try (new_store ?name corrupt_disk)
         = (Inl (LibraryError ''pickle data was truncated''), (new_store ?name corrupt_disk)\<lparr>index := ?ix\<rparr>)
     \<and> total_vectors (get_stats (snd (load_index (new_store ?name corrupt_disk)))) = 0
     \<and> texts (snd (load_index (new_store ?name corrupt_disk))) = []"
    by blast
  from load_index_never_raises
         [where st = "new_store ?name stale_disk" and name = ?name and fs = stale_disk
            and sentence_transformer = "\<lambda>name. Inr ()" and ix = ?ix
            and msg = "''pickle data was truncated''" and data = ?data
            and saved = "''paraphrase-MiniLM-L3-v2''"] s
  have 2: "fst (load_index (new_store ?name stale_disk)) = Inr ()
     \<and> index (snd (load_index (new_store ?name stale_disk))) = ?ix
     \<and> texts (snd (load_index (new_store ?name stale_disk))) = get_or (Some [''An old chunk.'']) []"
    by simp
  from c 1 2 show ?thesis
    by (simp add: get_or_def get_stats_def ntotal_def)
qed

text \<open>
  C10. After \<open>clear\<close>, whether or not an unlink raised, the statistics report the same
  dimension and model name and no vector, the texts and the metadata are empty, and every
  search on that store returns the empty list.
\<close>

theorem clear_resets_store:
  "stats_dimension (get_stats (snd (clear env st))) = stats_dimension (get_stats st)
   \<and> stats_model_name (get_stats (snd (clear env st))) = stats_model_name (get_stats st)
   \<and> total_vectors (get_stats (snd (clear env st))) = 0
   \<and> texts (snd (clear env st)) = []
   \<and> metadata (snd (clear env st)) = []
   \<and> similarity_search ext (snd (clear env st)) q k = Inr []"
  by (simp add: clear_def Let_def get_stats_def similarity_search_def IndexFlatIP_def ntotal_def
        log_to_def split: unlink_outcome.splits)


section \<open>Properties of the answer synthesizer\<close>

subsection \<open>Auxiliary facts\<close>

lemma context_loop_enumerate:
  "context_loop i cs parts
     = parts @ map (\<lambda>(j, r). labelled_block (j + 1) r @ ''\<newline>'') (enumerate i cs)"
proof (induction cs arbitrary: i parts)
  case Nil
  then show ?case by simp
next
  case (Cons c cs)
  obtain t md score where c: "c = (t, md, score)" by (cases c)
  show ?case unfolding c by (simp add: Cons.IH labelled_block_def)
qed

lemma py_join_terminated:
  "py_join sep (map (\<lambda>b. b @ t) bs) = (if bs = [] then [] else py_join (t @ sep) bs @ t)"
proof (induction bs)
  case Nil
  then show ?case by simp
next
  case (Cons b bs)
  then show ?case by (cases bs) simp_all
qed

lemma map_enumerate_nth:
  "map (\<lambda>(j, r). f j r) (enumerate 0 xs) = map (\<lambda>i. f i (xs ! i)) [0..<length xs]"
  by (rule nth_equalityI) (simp_all add: nth_enumerate_eq)

lemma py_strip_empty: "py_strip s = [] \<longleftrightarrow> list_all py_isspace s"
proof -
  let ?rest = "dropWhile py_isspace s"
  have inner: "dropWhile py_isspace (rev ?rest) = [] \<longleftrightarrow> ?rest = []"
  proof
    assume a: "dropWhile py_isspace (rev ?rest) = []"
    show "?rest = []"
    proof (rule ccontr)
      assume n: "?rest \<noteq> []"
      then have "\<not> py_isspace (hd ?rest)" by (rule hd_dropWhile)
      moreover from n have "hd ?rest \<in> set (rev ?rest)" by simp
      ultimately show False using a unfolding dropWhile_eq_Nil_conv by blast
    qed
  next
    assume e: "?rest = []"
    show "dropWhile py_isspace (rev ?rest) = []" unfolding e by simp
  qed
  have "py_strip s = [] \<longleftrightarrow> dropWhile py_isspace (rev ?rest) = []"
    unfolding py_strip_def by (rule rev_is_Nil_conv)
  also note inner
  also have "?rest = [] \<longleftrightarrow> list_all py_isspace s"
    unfolding dropWhile_eq_Nil_conv list_all_iff ..
  finally show ?thesis .
qed

lemma sentences_of_segments:
  "sentences_of t
     = map py_strip (filter (\<lambda>piece. \<not> list_all py_isspace piece) (py_split_on (CHR ''.'') t))"
  by (simp add: sentences_of_def py_strip_empty)

lemma split_on_loop_nonempty: "split_on_loop sep s cur \<noteq> []"
  by (induction s arbitrary: cur) simp_all

lemma split_on_loop_join:
  "py_join [sep] (split_on_loop sep s cur) = cur @ s"
proof (induction s arbitrary: cur)
  case Nil
  then show ?case by simp
next
  case (Cons c s)
  obtain p ps where ps: "split_on_loop sep s [] = p # ps"
    using split_on_loop_nonempty [of sep s "[]"] by (cases "split_on_loop sep s []") auto
  with Cons.IH [of "[]"] Cons.IH [of "cur @ [c]"] show ?case by auto
qed

lemma split_on_loop_pieces:
  "sep \<notin> set cur \<Longrightarrow> piece \<in> set (split_on_loop sep s cur) \<Longrightarrow> sep \<notin> set piece"
proof (induction s arbitrary: cur)
  case Nil
  then show ?case by simp
next
  case (Cons c s)
  show ?case
  proof (cases "c = sep")
    case True
    with Cons.prems have "piece = cur \<or> piece \<in> set (split_on_loop sep s [])" by simp
    then show ?thesis
    proof
      assume "piece = cur"
      with Cons.prems(1) show ?thesis by simp
    next
      assume "piece \<in> set (split_on_loop sep s [])"
      with Cons.IH [of "[]"] show ?thesis by simp
    qed
  next
    case False
    with Cons.prems have "piece \<in> set (split_on_loop sep s (cur @ [c]))" by simp
    moreover from False Cons.prems(1) have "sep \<notin> set (cur @ [c])" by simp
    ultimately show ?thesis by (rule Cons.IH [rotated])
  qed
qed

lemma relevant_loop_filter:
  "relevant_loop (set (py_split_ws (py_lower query))) sentences acc
     = acc @ filter (overlaps query) sentences"
  by (induction sentences arbitrary: acc) (simp_all add: overlaps_def)

lemma relevant_sentences_surviving:
  "relevant_loop (set (py_split_ws (py_lower query))) (sentences_of t) []
     = surviving_segments query t"
  by (simp add: relevant_loop_filter sentences_of_segments surviving_segments_def)

lemma fallback_single:
  "generate_fallback_response ext query context [(t, md, score)]
     = (if surviving_segments query t \<noteq> [] then
          ''Based on the available information:\<newline>\<newline>''
            @ py_join ''. '' (take 3 (surviving_segments query t))
            @ ''\<newline>\<newline>Source: '' @ get_or (source md) ''Unknown document''
            @ '' (Relevance: '' @ format_2f ext score @ '')''
        else
          ''I found information related to your query in ''
            @ get_or (source md) ''the document'' @ '', ''
            @ ''but I couldn't extract specific details. Here's what I found:\<newline>\<newline>''
            @ take 300 t @ (if 300 < length t then ''...'' else [])
            @ ''\<newline>\<newline>(Relevance: '' @ format_2f ext score @ '')'')"
  by (simp add: generate_fallback_response_def relevant_sentences_surviving Let_def)

lemma fallback_prefix:
  "prefix (generate_fallback_response ext query context [r])
          (generate_fallback_response ext query context (r # rest))"
proof -
  obtain t md score where r: "r = (t, md, score)" by (cases r)
  show ?thesis unfolding r
    by (simp add: generate_fallback_response_def Let_def)
qed

lemma fallback_decompose:
  "generate_fallback_response ext query context (r # r' # rest)
     = generate_fallback_response ext query context [r]
       @ (if 1 < length (list_of_set ext (top_sources (r # r' # rest)))
          then sources_note (list_of_set ext (top_sources (r # r' # rest))) else [])"
proof -
  obtain t md score where r: "r = (t, md, score)" by (cases r)
  have src: "map (\<lambda>(_, md, _). get_or (source md) ''Unknown'') (take 3 (r # r' # rest))
               = top_sources (r # r' # rest)"
    unfolding top_sources_def by (rule map_cong) (auto simp: split_def)
  show ?thesis
    unfolding generate_fallback_response_def Let_def src unfolding r
    by (simp add: sources_note_def)
qed

lemma scenario_C_segments:
  "surviving_segments ''At what temperature does ice melt?''
       ''The sky is blue. Water boils at 100 degrees. Ice melts at 0 degrees.''
     = [''Water boils at 100 degrees'', ''Ice melts at 0 degrees'']"
  by code_simp

lemma scenario_C_overlap:
  "overlaps ''At what temperature does ice melt?'' ''Water boils at 100 degrees''"
  "overlaps ''At what temperature does ice melt?'' ''Ice melts at 0 degrees''"
  "\<not> overlaps ''At what temperature does ice melt?'' ''The sky is blue''"
  by code_simp+

lemma str_nat_2: "str_nat 2 = ''2''"
  by (simp add: str_nat.simps digit_char_def)

lemma fallback_single_overlap:
  assumes "surviving_segments query t \<noteq> []"
  shows "generate_fallback_response ext query context [(t, md, score)]
     = ''Based on the available information:\<newline>\<newline>''
         @ py_join ''. '' (take 3 (surviving_segments query t))
         @ ''\<newline>\<newline>Source: '' @ get_or (source md) ''Unknown document''
         @ '' (Relevance: '' @ format_2f ext score @ '')''"
  using assms by (simp add: fallback_single)


lemma py_join_member: "s \<in> set parts \<Longrightarrow> sublist s (py_join sep parts)"
proof (induction sep parts rule: py_join.induct)
  case (1 sep)
  then show ?case by simp
next
  case (2 sep p)
  then show ?case by simp
next
  case (3 sep p q ps)
  show ?case
  proof (cases "s = p")
    case True
    then show ?thesis by (simp add: sublist_append_rightI)
  next
    case False
    with 3 have "sublist s (py_join sep (q # ps))" by simp
    then obtain before after where "py_join sep (q # ps) = before @ s @ after"
      unfolding sublist_def by blast
    then have "py_join sep (p # q # ps) = (p @ sep @ before) @ s @ after" by simp
    then show ?thesis unfolding sublist_def by blast
  qed
qed



subsection \<open>Empty context and context assembly\<close>

text \<open>
  C5. On an empty result list the synthesizer returns the fixed message and enters none
  of its methods: neither the context assembly nor the backend strategy nor the
  fallback strategy.
\<close>

theorem generate_response_empty_context:
  "generate_response svc ext query []
     = (''I couldn't find relevant information to answer your question.'', [])"
  by (simp add: generate_response_def)

text \<open>
  C6. The context built by the loop is the context of the specification, closed by one
  line break: at most the first five results, in their order, each as a block with its
  1-based position, its source (\<open>Unknown\<close> when absent), its chunk id (\<open>0\<close> when absent)
  and its raw text, the blocks separated by a blank line. Results after the fifth do not
  change it.
\<close>

theorem prepare_context_assembles:
  "prepare_context cs = (if cs = [] then [] else assemble cs @ ''\<newline>'')
   \<and> prepare_context cs = prepare_context (take 5 cs)"
proof
  let ?blocks = "map (\<lambda>i. labelled_block (i + 1) (cs ! i)) [0..<min 5 (length cs)]"
  have "context_loop 0 (take 5 cs) []
      = map (\<lambda>b. b @ ''\<newline>'') (map (\<lambda>(j, r). labelled_block (j + 1) r) (enumerate 0 (take 5 cs)))"
    by (simp add: context_loop_enumerate split_def)
  also have "map (\<lambda>(j, r). labelled_block (j + 1) r) (enumerate 0 (take 5 cs))
      = map (\<lambda>i. labelled_block (i + 1) (take 5 cs ! i)) [0..<length (take 5 cs)]"
    by (rule map_enumerate_nth)
  also have "\<dots> = ?blocks"
    by (simp add: min.commute)
  finally have loop: "context_loop 0 (take 5 cs) [] = map (\<lambda>b. b @ ''\<newline>'') ?blocks" .
  have empty: "?blocks = [] \<longleftrightarrow> cs = []" by (cases cs) simp_all
  have "prepare_context cs = py_join ''\<newline>'' (map (\<lambda>b. b @ ''\<newline>'') ?blocks)"
    unfolding prepare_context_def loop ..
  also have "\<dots> = (if ?blocks = [] then [] else py_join (''\<newline>'' @ ''\<newline>'') ?blocks @ ''\<newline>'')"
    by (rule py_join_terminated)
  also have "\<dots> = (if cs = [] then [] else assemble cs @ ''\<newline>'')"
    unfolding empty assemble_def by simp
  finally show "prepare_context cs = (if cs = [] then [] else assemble cs @ ''\<newline>'')" .
  show "prepare_context cs = prepare_context (take 5 cs)"
    by (simp add: prepare_context_def)
qed


subsection \<open>The deterministic fallback\<close>

text \<open>
  C4, as the code has it. For every query and every result list with a first result,
  the loop of the fallback selects exactly the surviving segments of the first chunk,
  cut at full stops only: the pieces between full stops, the empty and white-space-only
  ones dropped, the others stripped and kept when their lower-cased words share a word
  with the lower-cased words of the query. The answer contains the first three of them
  joined with \<open>". "\<close>, and when there is one it begins with the heading, that join, the
  source and the relevance. The pieces joined with full stops give the chunk back. In
  scenario C the selected sentences are the two that overlap with the query, and the
  sentence on the sky does not overlap.
\<close>

theorem fallback_selects_overlapping_segments:
  "sublist (py_join ''. '' (take 3 (surviving_segments query t)))
           (generate_fallback_response ext query context ((t, md, score) # rest))
   \<and> (surviving_segments query t \<noteq> [] \<longrightarrow>
        prefix (''Based on the available information:\<newline>\<newline>''
                  @ py_join ''. '' (take 3 (surviving_segments query t))
                  @ ''\<newline>\<newline>Source: '' @ get_or (source md) ''Unknown document''
                  @ '' (Relevance: '' @ format_2f ext score @ '')'')
               (generate_fallback_response ext query context ((t, md, score) # rest)))
   \<and> relevant_loop (set (py_split_ws (py_lower query))) (sentences_of t) []
       = surviving_segments query t
   \<and> py_join ''.'' (py_split_on (CHR ''.'') t) = t
   \<and> surviving_segments ''At what temperature does ice melt?''
         ''The sky is blue. Water boils at 100 degrees. Ice melts at 0 degrees.''
       = [''Water boils at 100 degrees'', ''Ice melts at 0 degrees'']
   \<and> overlaps ''At what temperature does ice melt?'' ''Water boils at 100 degrees''
   \<and> overlaps ''At what temperature does ice melt?'' ''Ice melts at 0 degrees''
   \<and> \<not> overlaps ''At what temperature does ice melt?'' ''The sky is blue''"
proof -
  let ?resp = "generate_fallback_response ext query context ((t, md, score) # rest)"
  let ?single = "generate_fallback_response ext query context [(t, md, score)]"
  let ?joined = "py_join ''. '' (take 3 (surviving_segments query t))"
  have pre: "prefix ?single ?resp" by (rule fallback_prefix)
  have some: "prefix (''Based on the available information:\<newline>\<newline>'' @ ?joined
                  @ ''\<newline>\<newline>Source: '' @ get_or (source md) ''Unknown document''
                  @ '' (Relevance: '' @ format_2f ext score @ '')'') ?resp"
    if "surviving_segments query t \<noteq> []"
    using pre unfolding fallback_single_overlap [OF that] .
  have "sublist ?joined ?resp"
  proof (cases "surviving_segments query t = []")
    case True
    then show ?thesis by simp
  next
    case False
    have "sublist ?joined ?single"
      unfolding fallback_single_overlap [OF False] by (rule sublist_appendI)
    moreover from pre have "sublist ?single ?resp" by (rule prefix_imp_sublist)
    ultimately show ?thesis by (rule sublist_order.order_trans)
  qed
  moreover have "py_join ''.'' (py_split_on (CHR ''.'') t) = t"
    by (simp add: py_split_on_def split_on_loop_join)
  ultimately show ?thesis
    using some relevant_sentences_surviving scenario_C_segments scenario_C_overlap by blast
qed

theorem fallback_selects_overlapping_segments_witness:
  "surviving_segments ''At what temperature does ice melt?'' (fst scenario_C_chunk) \<noteq> []
   \<and> prefix ''Based on the available information:\<newline>\<newline>Water boils at 100 degrees. Ice melts at 0 degrees\<newline>\<newline>Source: physics.txt (Relevance: 0.87)''
        (generate_fallback_response example_llm_ext ''At what temperature does ice melt?'' [] [scenario_C_chunk])"
proof -
  have s: "surviving_segments ''At what temperature does ice melt?'' (fst scenario_C_chunk)
             = [''Water boils at 100 degrees'', ''Ice melts at 0 degrees'']"
    by (simp add: scenario_C_chunk_def scenario_C_segments)
  have f: "format_2f example_llm_ext 87 = ''0.87''"
    by (simp add: example_llm_ext_def str_nat.simps digit_char_def)
  from fallback_selects_overlapping_segments
         [of "''At what temperature does ice melt?''" "fst scenario_C_chunk" example_llm_ext "[]"
             "example_meta ''physics.txt'' 0" 87 "[]"]
  show ?thesis
    unfolding s by (simp add: f scenario_C_chunk_def example_meta_def get_or_def)
qed

text \<open>
  C4 as it is stated, with segments cut at sentence-terminating punctuation, fails on a
  chunk whose sentences end in a question mark and an exclamation mark: cut at every
  such mark, the segments that overlap with the query \<open>ice\<close> are the first and the
  third sentence, while the code, which cuts at full stops, selects the whole chunk as
  one segment and answers with it; the join of the two sentences is not in the answer.
\<close>

theorem fallback_question_mark_counterexample:
  "punctuation_segments ''ice'' (fst question_chunk) = [''Is ice cold'', ''Ice melts'']
   \<and> relevant_loop (set (py_split_ws (py_lower ''ice''))) (sentences_of (fst question_chunk)) []
       = [''Is ice cold? Yes! Ice melts'']
   \<and> generate_fallback_response example_llm_ext ''ice'' [] [question_chunk]
       = ''Based on the available information:\<newline>\<newline>Is ice cold? Yes! Ice melts\<newline>\<newline>Source: ice.txt (Relevance: 0.87)''
   \<and> \<not> sublist (py_join ''. '' (take 3 (punctuation_segments ''ice'' (fst question_chunk))))
            (generate_fallback_response example_llm_ext ''ice'' [] [question_chunk])"
proof -
  have p: "punctuation_segments ''ice'' (fst question_chunk) = [''Is ice cold'', ''Ice melts'']"
    by code_simp
  have r: "relevant_loop (set (py_split_ws (py_lower ''ice''))) (sentences_of (fst question_chunk)) []
       = [''Is ice cold? Yes! Ice melts'']"
    by code_simp
  have g: "generate_fallback_response example_llm_ext ''ice'' [] [question_chunk]
       = ''Based on the available information:\<newline>\<newline>Is ice cold? Yes! Ice melts\<newline>\<newline>Source: ice.txt (Relevance: 0.87)''"
    by code_simp
  have n: "\<not> sublist ''Is ice cold. Ice melts''
             ''Based on the available information:\<newline>\<newline>Is ice cold? Yes! Ice melts\<newline>\<newline>Source: ice.txt (Relevance: 0.87)''"
    by code_simp
  from p r g n show ?thesis by simp
qed



text \<open>
  C8. For more than one result whose first three span more than one distinct source
  value, and an enumeration of the set of these values that lists each once, the answer
  is the answer for the first result alone followed by the note with the number of
  distinct sources and their list; every source value occurs in the list; with two
  distinct values the note reads \<open>across 2 sources\<close> and names both.
\<close>

theorem fallback_notes_multiple_sources:
  assumes more: "1 < length results"
    and spread: "1 < card (set (top_sources results))"
    and enum: "distinct (list_of_set ext (top_sources results))
               \<and> set (list_of_set ext (top_sources results)) = set (top_sources results)"
  shows "generate_fallback_response ext query context results
           = generate_fallback_response ext query context (take 1 results)
             @ ''\<newline>\<newline>Information was found across ''
             @ str_nat (card (set (top_sources results))) @ '' sources: ''
             @ py_join '', '' (list_of_set ext (top_sources results))
       \<and> (\<forall>src \<in> set (top_sources results).
             sublist src (py_join '', '' (list_of_set ext (top_sources results))))
       \<and> (card (set (top_sources results)) = 2 \<longrightarrow>
            (\<exists>a b. a \<noteq> b \<and> set (top_sources results) = {a, b}
               \<and> suffix (''\<newline>\<newline>Information was found across 2 sources: '' @ a @ '', '' @ b)
                    (generate_fallback_response ext query context results)))"
proof -
  let ?us = "list_of_set ext (top_sources results)"
  let ?resp = "generate_fallback_response ext query context results"
  let ?base = "generate_fallback_response ext query context (take 1 results)"
  from more obtain r r' rest where rs: "results = r # r' # rest"
    by (cases results; cases "tl results") auto
  from enum have len: "length ?us = card (set (top_sources results))"
    using distinct_card [of ?us] by simp
  with spread have "1 < length ?us" by simp
  then have "?resp = ?base @ sources_note ?us"
    unfolding rs by (simp add: fallback_decompose)
  then have eq: "?resp = ?base @ ''\<newline>\<newline>Information was found across ''
             @ str_nat (card (set (top_sources results))) @ '' sources: '' @ py_join '', '' ?us"
    unfolding sources_note_def len .
  have listed: "\<forall>src \<in> set (top_sources results). sublist src (py_join '', '' ?us)"
    using enum by (auto intro: py_join_member)
  have two: "\<exists>a b. a \<noteq> b \<and> set (top_sources results) = {a, b}
               \<and> suffix (''\<newline>\<newline>Information was found across 2 sources: '' @ a @ '', '' @ b) ?resp"
    if c: "card (set (top_sources results)) = 2"
  proof -
    from len c have "length ?us = 2" by simp
    then obtain a b where ab: "?us = [a, b]"
      by (cases ?us; cases "tl ?us") auto
    with enum have d: "a \<noteq> b" and s: "set (top_sources results) = {a, b}" by auto
    have "?resp = ?base @ (''\<newline>\<newline>Information was found across 2 sources: '' @ a @ '', '' @ b)"
      unfolding eq c ab by (simp add: str_nat_2)
    then have "suffix (''\<newline>\<newline>Information was found across 2 sources: '' @ a @ '', '' @ b) ?resp"
      unfolding suffix_def by blast
    with d s show ?thesis by blast
  qed
  from eq listed two show ?thesis by blast
qed

theorem fallback_notes_multiple_sources_witness:
  "1 < length scenario_D_results
   \<and> generate_fallback_response example_llm_ext ''Which animal purrs?'' [] scenario_D_results
       = generate_fallback_response example_llm_ext ''Which animal purrs?'' [] (take 1 scenario_D_results)
         @ ''\<newline>\<newline>Information was found across 2 sources: doc1, doc2''"
proof -
  have src: "top_sources scenario_D_results = [''doc1'', ''doc2'']"
    by (simp add: top_sources_def scenario_D_results_def example_meta_def get_or_def)
  have more: "1 < length scenario_D_results" by (simp add: scenario_D_results_def)
  have spread: "1 < card (set (top_sources scenario_D_results))" unfolding src by simp
  have enum: "distinct (list_of_set example_llm_ext (top_sources scenario_D_results))
        \<and> set (list_of_set example_llm_ext (top_sources scenario_D_results))
            = set (top_sources scenario_D_results)"
    by (simp add: example_llm_ext_def)
  have c: "card (set [''doc1'', ''doc2'']) = 2" by simp
  have l: "list_of_set example_llm_ext [''doc1'', ''doc2''] = [''doc1'', ''doc2'']"
    by (simp add: example_llm_ext_def)
  from fallback_notes_multiple_sources [OF more spread enum, of "''Which animal purrs?''" "[]"] more
  show ?thesis
    unfolding src c l by (simp add: str_nat_2)
qed

end
